theory Spec2Isabelle
  imports Complex_Main "HOL-Library.AList"
begin

section \<open>Python values\<close>

text \<open>
  The hooks and the helper are dynamically typed: a content payload, a role and a context
  id are \<open>Any\<close>. The values of the model are the JSON-like fragment of Python together
  with \<open>bytes\<close>: \<open>None\<close>, \<open>bool\<close>, \<open>int\<close>, \<open>str\<close>, \<open>bytes\<close>, \<open>list\<close> and \<open>dict\<close> (an
  association list in insertion order, its keys distinct). A \<open>char\<close> is read as a code
  point below 256, and the string functions below follow Python on that range. An \<open>int\<close>
  is one that \<open>str\<close> converts, that is, within the interpreter's limit on decimal digits
  (4300 by default). Floats and user classes are outside the model. Names keep the
  source's spelling without the leading underscore.

  Calls to the logger are left out: they change neither a result nor any state the
  operations read. An exception is a value of a class deriving from \<open>Exception\<close>, the
  classes that \<^verbatim>\<open>except Exception\<close> catches.
\<close>

datatype pyval =
    PNone
  | PBool bool
  | PInt int
  | PStr string
  | PBytes string
  | PList "pyval list"
  | PDict "(pyval \<times> pyval) list"

text \<open>Truth value testing, as \<open>bool(x)\<close>, \<open>if x\<close> and \<open>x or y\<close> do it.\<close>

fun truthy :: "pyval \<Rightarrow> bool" where
  "truthy PNone = False"
| "truthy (PBool b) = b"
| "truthy (PInt i) = (i \<noteq> 0)"
| "truthy (PStr s) = (s \<noteq> [])"
| "truthy (PBytes s) = (s \<noteq> [])"
| "truthy (PList xs) = (xs \<noteq> [])"
| "truthy (PDict kvs) = (kvs \<noteq> [])"

text \<open>\<open>a or b\<close>: the first operand when it is truthy, the second otherwise.\<close>

definition py_or :: "pyval \<Rightarrow> pyval \<Rightarrow> pyval" where
  "py_or a b = (if truthy a then a else b)"

text \<open>\<open>d.get(key)\<close> for a string key: the value, or \<open>None\<close> when the key is missing.\<close>

definition dict_get :: "(pyval \<times> pyval) list \<Rightarrow> string \<Rightarrow> pyval" where
  "dict_get d key = (case map_of d (PStr key) of None \<Rightarrow> PNone | Some v \<Rightarrow> v)"

subsection \<open>\<open>str\<close> and \<open>repr\<close>\<close>

fun str_nat :: "nat \<Rightarrow> string" where
  "str_nat n =
     (if n < 10 then [''0123456789'' ! n]
      else str_nat (n div 10) @ [''0123456789'' ! (n mod 10)])"

definition str_int :: "int \<Rightarrow> string" where
  "str_int i = (if i < 0 then ''-'' @ str_nat (nat (- i)) else str_nat (nat i))"

definition hex2 :: "char \<Rightarrow> string" where
  "hex2 c = [''0123456789abcdef'' ! (of_char c div 16), ''0123456789abcdef'' ! (of_char c mod 16)]"

text \<open>
  One character inside a quoted literal. \<open>q\<close> is the quote in use. In a \<open>bytes\<close> literal
  every byte below 0x20 or from 0x7f on is escaped; in a \<open>str\<close> literal the code points
  that are not printable are: those below 0x20, 0x7f to 0xa0, and 0xad.
\<close>

definition repr_char :: "bool \<Rightarrow> char \<Rightarrow> char \<Rightarrow> string" where
  "repr_char bytes q c =
     (if c = q \<or> c = CHR 0x5C then [CHR 0x5C, c]
      else if c = CHR 0x09 then [CHR 0x5C, CHR ''t'']
      else if c = CHR 0x0A then [CHR 0x5C, CHR ''n'']
      else if c = CHR 0x0D then [CHR 0x5C, CHR ''r'']
      else if (of_char c :: nat) < 32
              \<or> (if bytes then 127 \<le> (of_char c :: nat)
                  else (127 \<le> (of_char c :: nat) \<and> (of_char c :: nat) \<le> 160)
                       \<or> (of_char c :: nat) = 173)
        then [CHR 0x5C, CHR ''x''] @ hex2 c
      else [c])"

text \<open>
  The quoted literal: single quotes, unless the text has a single quote and no double
  quote.
\<close>

definition repr_quoted :: "bool \<Rightarrow> string \<Rightarrow> string" where
  "repr_quoted bytes s =
     (let q = (if CHR 0x27 \<in> set s \<and> CHR 0x22 \<notin> set s then CHR 0x22 else CHR 0x27)
      in [q] @ concat (map (repr_char bytes q) s) @ [q])"

fun join :: "string \<Rightarrow> string list \<Rightarrow> string" where
  "join sep [] = []"
| "join sep [x] = x"
| "join sep (x # y # ys) = x @ sep @ join sep (y # ys)"

function py_repr :: "pyval \<Rightarrow> string"
  and repr_elems :: "pyval list \<Rightarrow> string list"
  and repr_items :: "(pyval \<times> pyval) list \<Rightarrow> string list" where
  "py_repr PNone = ''None''"
| "py_repr (PBool b) = (if b then ''True'' else ''False'')"
| "py_repr (PInt i) = str_int i"
| "py_repr (PStr s) = repr_quoted False s"
| "py_repr (PBytes s) = ''b'' @ repr_quoted True s"
| "py_repr (PList xs) = ''['' @ join '', '' (repr_elems xs) @ '']''"
| "py_repr (PDict kvs) = ''{'' @ join '', '' (repr_items kvs) @ ''}''"
| "repr_elems [] = []"
| "repr_elems (x # xs) = py_repr x # repr_elems xs"
| "repr_items [] = []"
| "repr_items ((k, v) # kvs) = (py_repr k @ '': '' @ py_repr v) # repr_items kvs"
  by pat_completeness auto
termination
  by (relation "measure (case_sum size (case_sum (size_list size)
        (size_list (size_prod size size))))") auto

text \<open>\<open>str(x)\<close>: a string is itself, every other value of the model is its \<open>repr\<close>.\<close>

definition py_str :: "pyval \<Rightarrow> string" where
  "py_str v = (case v of PStr s \<Rightarrow> s | _ \<Rightarrow> py_repr v)"

section \<open>The history-sync hook: \<open>_extract_content\<close>\<close>

text \<open>
  \<^verbatim>\<open>extracted = raw.get("content") or raw.get("text") or raw.get("message")\<close>
\<close>

definition extracted_of :: "(pyval \<times> pyval) list \<Rightarrow> pyval" where
  "extracted_of raw =
     py_or (py_or (dict_get raw ''content'') (dict_get raw ''text'')) (dict_get raw ''message'')"

text \<open>
  The statement after the loop:
  \<^verbatim>\<open>return raw if isinstance(raw, str) else str(raw) if raw else ""\<close>
\<close>

definition extract_return :: "pyval \<Rightarrow> string" where
  "extract_return raw =
     (case raw of PStr s \<Rightarrow> s | _ \<Rightarrow> if truthy raw then py_str raw else [])"

text \<open>
  The loop \<^verbatim>\<open>while isinstance(raw, dict) and depth < 10\<close>, with its early return when
  \<open>extracted is None\<close>.
\<close>

function extract_loop :: "pyval \<Rightarrow> nat \<Rightarrow> string" where
  "extract_loop raw depth =
     (case raw of
        PDict d \<Rightarrow>
          if depth < 10 then
            (let extracted = extracted_of d
             in if extracted = PNone then py_str raw
                else extract_loop extracted (depth + 1))
          else extract_return raw
      | _ \<Rightarrow> extract_return raw)"
  by pat_completeness auto
termination
  by (relation "measure (\<lambda>(raw, depth). 10 - depth)") auto

definition extract_content :: "pyval \<Rightarrow> string" where
  "extract_content content_data = extract_loop content_data 0"

text \<open>
  The spec's condition on a payload, in its words: within 10 levels of dict nesting the
  walk over the keys \<open>content\<close>, \<open>text\<close>, \<open>message\<close> comes to a dict in which none of them
  yields a value. \<open>key_path_missing n raw\<close> is that dict, when the walk from \<open>raw\<close>
  finds it within \<open>n\<close> levels.
\<close>

fun key_path_missing :: "nat \<Rightarrow> pyval \<Rightarrow> pyval option" where
  "key_path_missing 0 raw = None"
| "key_path_missing (Suc n) raw =
     (case raw of
        PDict d \<Rightarrow>
          if extracted_of d = PNone then Some raw else key_path_missing n (extracted_of d)
      | _ \<Rightarrow> None)"


section \<open>The helper module\<close>

subsection \<open>Constants\<close>

definition DEFAULT_WORKSPACE_ID :: string where
  "DEFAULT_WORKSPACE_ID = ''agent-zero''"

definition DEFAULT_USER_ID :: string where
  "DEFAULT_USER_ID = ''user''"

definition CONTEXT_CACHE_TTL :: rat where
  "CONTEXT_CACHE_TTL = 120"

definition MAX_MESSAGE_LENGTH :: nat where
  "MAX_MESSAGE_LENGTH = 10000"

definition RETRY_ATTEMPTS :: nat where
  "RETRY_ATTEMPTS = 3"

definition RETRY_BASE_DELAY :: rat where
  "RETRY_BASE_DELAY = 1 / 2"

subsection \<open>Strings\<close>

text \<open>
  \<open>str.isspace\<close> below 256: tab to carriage return, 0x1c to 0x1f, space, 0x85 (next
  line) and 0xa0 (no-break space). \<open>str.strip()\<close> removes these at both ends.
\<close>

definition py_isspace :: "char \<Rightarrow> bool" where
  "py_isspace c \<longleftrightarrow>
     c \<in> set [CHR 0x09, CHR 0x0A, CHR 0x0B, CHR 0x0C, CHR 0x0D,
              CHR 0x1C, CHR 0x1D, CHR 0x1E, CHR 0x1F, CHR 0x20, CHR 0x85, CHR 0xA0]"

definition py_strip :: "string \<Rightarrow> string" where
  "py_strip s = rev (dropWhile py_isspace (rev (dropWhile py_isspace s)))"

text \<open>
  The cased letters below 256 that change under \<open>lower\<close>: A to Z, and 0xc0 to 0xde but
  the multiplication sign 0xd7; each goes to the code point 0x20 above it.
\<close>

definition upper_letters :: string where
  "upper_letters =
     ''ABCDEFGHIJKLMNOPQRSTUVWXYZ'' @
     [CHR 0xC0, CHR 0xC1, CHR 0xC2, CHR 0xC3, CHR 0xC4, CHR 0xC5, CHR 0xC6, CHR 0xC7,
     CHR 0xC8, CHR 0xC9, CHR 0xCA, CHR 0xCB, CHR 0xCC, CHR 0xCD, CHR 0xCE, CHR 0xCF,
     CHR 0xD0, CHR 0xD1, CHR 0xD2, CHR 0xD3, CHR 0xD4, CHR 0xD5, CHR 0xD6, CHR 0xD8,
     CHR 0xD9, CHR 0xDA, CHR 0xDB, CHR 0xDC, CHR 0xDD, CHR 0xDE]"

definition lower_letters :: string where
  "lower_letters =
     ''abcdefghijklmnopqrstuvwxyz'' @
     [CHR 0xE0, CHR 0xE1, CHR 0xE2, CHR 0xE3, CHR 0xE4, CHR 0xE5, CHR 0xE6, CHR 0xE7,
     CHR 0xE8, CHR 0xE9, CHR 0xEA, CHR 0xEB, CHR 0xEC, CHR 0xED, CHR 0xEE, CHR 0xEF,
     CHR 0xF0, CHR 0xF1, CHR 0xF2, CHR 0xF3, CHR 0xF4, CHR 0xF5, CHR 0xF6, CHR 0xF8,
     CHR 0xF9, CHR 0xFA, CHR 0xFB, CHR 0xFC, CHR 0xFD, CHR 0xFE]"

definition lower_char :: "char \<Rightarrow> char" where
  "lower_char c =
     (case map_of (zip upper_letters lower_letters) c of
        Some l \<Rightarrow> l
      | None \<Rightarrow> c)"

definition py_lower :: "string \<Rightarrow> string" where
  "py_lower s = map lower_char s"

text \<open>
  \<open>upper\<close> is the converse on those letters. Three more code points change: the sharp s
  0xdf becomes \<open>SS\<close>, and the micro sign 0xb5 and 0xff become letters above 255, which no
  string of the model holds (\<open>None\<close>).
\<close>

definition upper_char :: "char \<Rightarrow> string option" where
  "upper_char c =
     (if c = CHR 0xB5 \<or> c = CHR 0xFF then None
      else if c = CHR 0xDF then Some ''SS''
      else
        (case map_of (zip lower_letters upper_letters) c of
           Some u \<Rightarrow> Some [u]
         | None \<Rightarrow> Some [c]))"

definition py_upper :: "string \<Rightarrow> string option" where
  "py_upper s = map_option concat (those (map upper_char s))"

subsection \<open>Exceptions, the SDK, the world outside\<close>

datatype exn =
    ValueError
  | TypeError
  | AttributeError
  | ImportError
  | OtherError string

text \<open>
  The handles of the remote SDK. Each is determined by the call that made it:
  \<^verbatim>\<open>Honcho(api_key=..., workspace_id=...)\<close>, \<^verbatim>\<open>client.session(session_id)\<close>,
  \<^verbatim>\<open>client.peer(name)\<close>, \<^verbatim>\<open>peer.message(content)\<close>.
\<close>

datatype client = Client string string
datatype session = Session client string
datatype peer = Peer client string
datatype message = Message peer string

datatype sdk_call =
    NewClient string string
  | GetSession client string
  | GetPeer client string
  | AddPeers session "peer list"
  | NewMessage peer string
  | AddMessages session "message list"
  | GetContext session

text \<open>
  What \<^verbatim>\<open>session.context()\<close> returns: an object that may have the attributes \<open>summary\<close>
  and \<open>peer_representation\<close> (\<open>None\<close> here: the attribute is absent).
\<close>

record session_context =
  summary :: "pyval option"
  peer_representation :: "pyval option"

text \<open>
  Everything the helper does to the world outside it is an event of the trace, in order:
  a load of the secret store (for the context of that identity), a call of the SDK, a
  sleep, a reading of \<^verbatim>\<open>time.time()\<close>.
\<close>

datatype event =
    LoadSecrets nat
  | Sdk sdk_call
  | Sleep rat
  | Time

text \<open>What \<^verbatim>\<open>_load_helper()\<close> meets: no module spec, a module that fails to execute, a module.\<close>

datatype load_outcome = NoSpec | LoadRaises exn | Loaded

text \<open>
  The collaborators, which the helper only consumes. Each answers from the trace so far,
  so an answer may change from one call to the next. Times are exact rationals, in
  seconds.
  \<^item> \<open>HONCHO_AVAILABLE\<close>: whether \<^verbatim>\<open>from honcho import Honcho\<close> succeeded when the module was
    executed (then \<open>Honcho\<close> is the class, else \<open>None\<close>);
  \<^item> \<open>secret_store\<close>: what \<^verbatim>\<open>get_secrets_manager(context).load_secrets()\<close> gives, a dict of
    strings, or the exception raised on the way (the import included);
  \<^item> \<open>sdk_raises\<close>: the exception an SDK call raises, if it raises;
  \<^item> \<open>remote_context\<close>: the object \<^verbatim>\<open>session.context()\<close> returns when it does not raise;
  \<^item> \<open>clock\<close>: the value of \<^verbatim>\<open>time.time()\<close>;
  \<^item> \<open>helper_file\<close>: the outcome of loading \<open>honcho_helper.py\<close> from its path.
\<close>

record env =
  HONCHO_AVAILABLE :: bool
  secret_store :: "event list \<Rightarrow> nat \<Rightarrow> exn + (string \<times> string) list"
  sdk_raises :: "event list \<Rightarrow> sdk_call \<Rightarrow> exn option"
  remote_context :: "event list \<Rightarrow> session \<Rightarrow> session_context"
  clock :: "event list \<Rightarrow> rat"
  helper_file :: load_outcome

text \<open>The module-level caches \<open>_client_cache\<close> and \<open>_context_cache\<close>, and the trace.\<close>

record state =
  trace :: "event list"
  client_cache :: "(string \<times> client) list"
  context_cache :: "(string \<times> rat \<times> pyval) list"

text \<open>
  The host's context object, as far as the plugin reads it: the attribute \<open>id\<close> (\<open>None\<close>:
  absent), the object's identity \<^verbatim>\<open>id(context)\<close>, and the side-channel dict \<open>_honcho\<close>
  (\<open>None\<close>: not attached). The host's other fields are the record's extension.
\<close>

record AgentContext =
  ctx_id :: "pyval option"
  ctx_identity :: nat
  honcho :: "(string \<times> pyval) list option"

definition load_secrets ::
  "env \<Rightarrow> 'a AgentContext_scheme \<Rightarrow> state \<Rightarrow> (exn + (string \<times> string) list) \<times> state" where
  "load_secrets e context st =
     (secret_store e (trace st) (ctx_identity context),
      st\<lparr>trace := trace st @ [LoadSecrets (ctx_identity context)]\<rparr>)"

definition sdk :: "env \<Rightarrow> sdk_call \<Rightarrow> state \<Rightarrow> exn option \<times> state" where
  "sdk e call st = (sdk_raises e (trace st) call, st\<lparr>trace := trace st @ [Sdk call]\<rparr>)"

definition time_time :: "env \<Rightarrow> state \<Rightarrow> rat \<times> state" where
  "time_time e st = (clock e (trace st), st\<lparr>trace := trace st @ [Time]\<rparr>)"

definition time_sleep :: "rat \<Rightarrow> state \<Rightarrow> state" where
  "time_sleep delay st = st\<lparr>trace := trace st @ [Sleep delay]\<rparr>"

text \<open>\<open>secrets.get(key, "")\<close>\<close>

definition secrets_get :: "(string \<times> string) list \<Rightarrow> string \<Rightarrow> string" where
  "secrets_get secrets key = (case map_of secrets key of None \<Rightarrow> [] | Some v \<Rightarrow> v)"

subsection \<open>\<open>_retry\<close>\<close>

text \<open>
  The wrapped function, with its arguments bound, is a computation over the state that
  returns or raises. The loop is \<^verbatim>\<open>for attempt in range(1, _RETRY_ATTEMPTS + 1)\<close>; after
  it comes \<^verbatim>\<open>raise last_exc\<close>, which raises \<open>TypeError\<close> should \<open>last_exc\<close> still be \<open>None\<close>.
\<close>

function retry_loop ::
  "(state \<Rightarrow> (exn + 'r) \<times> state) \<Rightarrow> nat \<Rightarrow> rat \<Rightarrow> exn option \<Rightarrow> state
     \<Rightarrow> (exn + 'r) \<times> state" where
  "retry_loop fn attempt delay last_exc st =
     (if attempt < RETRY_ATTEMPTS + 1 then
        (case fn st of
           (Inr result, st') \<Rightarrow> (Inr result, st')
         | (Inl exc, st') \<Rightarrow>
             if attempt < RETRY_ATTEMPTS
             then retry_loop fn (attempt + 1) (delay * 2) (Some exc) (time_sleep delay st')
             else retry_loop fn (attempt + 1) delay (Some exc) st')
      else
        (case last_exc of
           Some exc \<Rightarrow> (Inl exc, st)
         | None \<Rightarrow> (Inl TypeError, st)))"
  by pat_completeness auto
termination
  by (relation "measure (\<lambda>(fn, attempt, delay, last_exc, st). RETRY_ATTEMPTS + 1 - attempt)")
     auto

definition retry :: "(state \<Rightarrow> (exn + 'r) \<times> state) \<Rightarrow> state \<Rightarrow> (exn + 'r) \<times> state" where
  "retry fn st = retry_loop fn 1 RETRY_BASE_DELAY None st"

subsection \<open>Validation\<close>

text \<open>
  \<^verbatim>\<open>role = role.strip().lower()\<close> raises \<open>AttributeError\<close> on a value with no \<open>strip\<close>
  method. A \<open>bytes\<close> value has \<open>strip\<close> and \<open>lower\<close>, and the bytes they give equal neither
  \<open>"user"\<close> nor \<open>"assistant"\<close>.
\<close>

definition validate_role :: "pyval \<Rightarrow> exn + string" where
  "validate_role role =
     (case role of
        PStr s \<Rightarrow>
          (let role = py_lower (py_strip s)
           in if role \<notin> set [''user'', ''assistant''] then Inl ValueError else Inr role)
      | PBytes b \<Rightarrow> Inl ValueError
      | _ \<Rightarrow> Inl AttributeError)"

definition validate_content :: "pyval \<Rightarrow> exn + string" where
  "validate_content content =
     (case content of
        PStr s \<Rightarrow>
          (let content = py_strip s
           in if content = [] then Inl ValueError else Inr content)
      | _ \<Rightarrow> Inl TypeError)"

subsection \<open>Configuration\<close>

definition get_api_key :: "env \<Rightarrow> 'a AgentContext_scheme \<Rightarrow> state \<Rightarrow> string option \<times> state" where
  "get_api_key e context st =
     (case load_secrets e context st of
        (Inl exc, st') \<Rightarrow> (None, st')
      | (Inr secrets, st') \<Rightarrow>
          (let value = py_strip (secrets_get secrets ''HONCHO_API_KEY'')
           in (if value = [] then None else Some value, st')))"

text \<open>
  \<^verbatim>\<open>secrets.get(key.upper(), "").strip() or default\<close>. A key whose upper-case form has a
  code point above 255 is in no dict of the model, so \<open>get\<close> gives its default.
\<close>

definition get_config_value ::
  "env \<Rightarrow> string \<Rightarrow> string \<Rightarrow> 'a AgentContext_scheme \<Rightarrow> state \<Rightarrow> string \<times> state" where
  "get_config_value e key dflt context st =
     (if key = [] then (dflt, st)
      else
        (case load_secrets e context st of
           (Inl exc, st') \<Rightarrow> (dflt, st')
         | (Inr secrets, st') \<Rightarrow>
             (let value = py_strip
                    (case py_upper key of
                       Some upper \<Rightarrow> secrets_get secrets upper
                     | None \<Rightarrow> [])
              in (if value = [] then dflt else value, st'))))"

text \<open>\<^verbatim>\<open>return HONCHO_AVAILABLE and bool(get_api_key(context))\<close>\<close>

definition is_configured :: "env \<Rightarrow> 'a AgentContext_scheme \<Rightarrow> state \<Rightarrow> bool \<times> state" where
  "is_configured e context st =
     (if \<not> HONCHO_AVAILABLE e then (False, st)
      else
        (case get_api_key e context st of
           (None, st') \<Rightarrow> (False, st')
         | (Some api_key, st') \<Rightarrow> (True, st')))"

subsection \<open>Client management\<close>

definition get_client :: "env \<Rightarrow> 'a AgentContext_scheme \<Rightarrow> state \<Rightarrow> client option \<times> state" where
  "get_client e context st =
     (if \<not> HONCHO_AVAILABLE e then (None, st)
      else
        (case get_api_key e context st of
           (None, st1) \<Rightarrow> (None, st1)
         | (Some api_key, st1) \<Rightarrow>
             (case get_config_value e ''HONCHO_WORKSPACE_ID'' DEFAULT_WORKSPACE_ID context st1 of
                (workspace_id, st2) \<Rightarrow>
                  (case map_of (client_cache st2) workspace_id of
                     Some cached \<Rightarrow> (Some cached, st2)
                   | None \<Rightarrow>
                       (case sdk e (NewClient api_key workspace_id) st2 of
                          (Some exc, st3) \<Rightarrow> (None, st3)
                        | (None, st3) \<Rightarrow>
                            (Some (Client api_key workspace_id),
                             st3\<lparr>client_cache :=
                                   AList.update workspace_id (Client api_key workspace_id)
                                     (client_cache st3)\<rparr>))))))"

subsection \<open>Session and user\<close>

definition get_session_id :: "'a AgentContext_scheme \<Rightarrow> string" where
  "get_session_id context =
     (case ctx_id context of
        Some i \<Rightarrow>
          if truthy i then ''chat-'' @ py_str i
          else ''session-'' @ str_nat (ctx_identity context)
      | None \<Rightarrow> ''session-'' @ str_nat (ctx_identity context))"

definition get_user_id :: "env \<Rightarrow> 'a AgentContext_scheme \<Rightarrow> state \<Rightarrow> string \<times> state" where
  "get_user_id e context st = get_config_value e ''HONCHO_USER_ID'' DEFAULT_USER_ID context st"

subsection \<open>Lazy initialisation\<close>

text \<open>\<^verbatim>\<open>hasattr(context, "_honcho") and context._honcho.get("enabled")\<close>\<close>

definition honcho_enabled :: "'a AgentContext_scheme \<Rightarrow> bool" where
  "honcho_enabled context =
     (case honcho context of
        None \<Rightarrow> False
      | Some h \<Rightarrow> truthy (case map_of h ''enabled'' of None \<Rightarrow> PNone | Some v \<Rightarrow> v))"

text \<open>The dict after \<^verbatim>\<open>if not hasattr(context, "_honcho"): context._honcho = {}\<close>.\<close>

definition honcho_dict :: "'a AgentContext_scheme \<Rightarrow> (string \<times> pyval) list" where
  "honcho_dict context = (case honcho context of None \<Rightarrow> [] | Some h \<Rightarrow> h)"

text \<open>
  The \<open>try\<close> block of \<open>ensure_initialized\<close>, up to the marking of the context. The inner
  \<open>try\<close> around \<open>add_peers\<close> passes over its exception.
\<close>

definition init_session ::
  "env \<Rightarrow> client \<Rightarrow> string \<Rightarrow> 'a AgentContext_scheme \<Rightarrow> state \<Rightarrow> (exn + unit) \<times> state" where
  "init_session e client session_id context st =
     (case sdk e (GetSession client session_id) st of
        (Some exc, st1) \<Rightarrow> (Inl exc, st1)
      | (None, st1) \<Rightarrow>
          (case get_user_id e context st1 of
             (user_id, st2) \<Rightarrow>
               (case sdk e (GetPeer client user_id) st2 of
                  (Some exc, st3) \<Rightarrow> (Inl exc, st3)
                | (None, st3) \<Rightarrow>
                    (case sdk e (GetPeer client ''agent-zero'') st3 of
                       (Some exc, st4) \<Rightarrow> (Inl exc, st4)
                     | (None, st4) \<Rightarrow>
                         (case sdk e (AddPeers (Session client session_id)
                                   [Peer client user_id, Peer client ''agent-zero'']) st4 of
                            (ignored, st5) \<Rightarrow> (Inr (), st5))))))"

definition ensure_initialized ::
  "env \<Rightarrow> 'a AgentContext_scheme \<Rightarrow> state \<Rightarrow> bool \<times> 'a AgentContext_scheme \<times> state" where
  "ensure_initialized e context st =
     (if honcho_enabled context then (True, context, st)
      else
        (case is_configured e context st of
           (False, st1) \<Rightarrow> (False, context, st1)
         | (True, st1) \<Rightarrow>
             (case get_client e context st1 of
                (None, st2) \<Rightarrow> (False, context, st2)
              | (Some client, st2) \<Rightarrow>
                  (let h = honcho_dict context;
                       context = context\<lparr>honcho := Some h\<rparr>;
                       session_id = get_session_id context
                   in case init_session e client session_id context st2 of
                        (Inr u, st3) \<Rightarrow>
                          (True,
                           context\<lparr>honcho := Some
                             (AList.update ''session_id'' (PStr session_id)
                               (AList.update ''enabled'' (PBool True) h))\<rparr>,
                           st3)
                      | (Inl exc, st3) \<Rightarrow>
                          (False,
                           context\<lparr>honcho := Some (AList.update ''enabled'' (PBool False) h)\<rparr>,
                           st3)))))"

subsection \<open>Message sync\<close>

text \<open>The body of \<open>_push_message\<close>; the decorator wraps it.\<close>

definition push_message_body ::
  "env \<Rightarrow> client \<Rightarrow> string \<Rightarrow> peer \<Rightarrow> string \<Rightarrow> state \<Rightarrow> (exn + unit) \<times> state" where
  "push_message_body e client session_id peer content st =
     (case sdk e (GetSession client session_id) st of
        (Some exc, st1) \<Rightarrow> (Inl exc, st1)
      | (None, st1) \<Rightarrow>
          (case sdk e (NewMessage peer (take MAX_MESSAGE_LENGTH content)) st1 of
             (Some exc, st2) \<Rightarrow> (Inl exc, st2)
           | (None, st2) \<Rightarrow>
               (case sdk e (AddMessages (Session client session_id)
                         [Message peer (take MAX_MESSAGE_LENGTH content)]) st2 of
                  (Some exc, st3) \<Rightarrow> (Inl exc, st3)
                | (None, st3) \<Rightarrow> (Inr (), st3))))"

definition push_message ::
  "env \<Rightarrow> client \<Rightarrow> string \<Rightarrow> peer \<Rightarrow> string \<Rightarrow> state \<Rightarrow> (exn + unit) \<times> state" where
  "push_message e client session_id peer content =
     retry (push_message_body e client session_id peer content)"

text \<open>The second \<open>try\<close> block of \<open>sync_message\<close>, up to the push.\<close>

definition sync_push ::
  "env \<Rightarrow> client \<Rightarrow> string \<Rightarrow> string \<Rightarrow> 'a AgentContext_scheme \<Rightarrow> state
     \<Rightarrow> (exn + unit) \<times> state" where
  "sync_push e client role content context st =
     (let session_id = get_session_id context
      in case get_user_id e context st of
           (user_id, st1) \<Rightarrow>
             (let name = (if role = ''user'' then user_id else ''agent-zero'')
              in case sdk e (GetPeer client name) st1 of
                   (Some exc, st2) \<Rightarrow> (Inl exc, st2)
                 | (None, st2) \<Rightarrow>
                     push_message e client session_id (Peer client name) content st2))"

text \<open>
  The first \<open>try\<close> block: both validations, role first. Its handler is
  \<^verbatim>\<open>except (ValueError, TypeError)\<close>; any other exception leaves \<open>sync_message\<close>.
\<close>

definition validate_both :: "pyval \<Rightarrow> pyval \<Rightarrow> exn + string \<times> string" where
  "validate_both role content =
     (case validate_role role of
        Inl exc \<Rightarrow> Inl exc
      | Inr role \<Rightarrow>
          (case validate_content content of
             Inl exc \<Rightarrow> Inl exc
           | Inr content \<Rightarrow> Inr (role, content)))"

text \<open>
  \<open>sync_message\<close> from the validated role and content on: lazy initialisation, client
  retrieval, and the second \<open>try\<close> block with its handler.
\<close>

definition sync_validated ::
  "env \<Rightarrow> 'a AgentContext_scheme \<Rightarrow> string \<Rightarrow> string \<Rightarrow> state
     \<Rightarrow> (exn + bool) \<times> 'a AgentContext_scheme \<times> state" where
  "sync_validated e context role content st =
     (case ensure_initialized e context st of
        (False, context, st1) \<Rightarrow> (Inr False, context, st1)
      | (True, context, st1) \<Rightarrow>
          (case get_client e context st1 of
             (None, st2) \<Rightarrow> (Inr False, context, st2)
           | (Some client, st2) \<Rightarrow>
               (case sync_push e client role content context st2 of
                  (Inl exc, st3) \<Rightarrow> (Inr False, context, st3)
                | (Inr u, st3) \<Rightarrow> (Inr True, context, st3))))"

definition sync_message ::
  "env \<Rightarrow> 'a AgentContext_scheme \<Rightarrow> pyval \<Rightarrow> pyval \<Rightarrow> state
     \<Rightarrow> (exn + bool) \<times> 'a AgentContext_scheme \<times> state" where
  "sync_message e context role content st =
     (case validate_both role content of
        Inl exc \<Rightarrow>
          if exc = ValueError \<or> exc = TypeError then (Inr False, context, st)
          else (Inl exc, context, st)
      | Inr (role, content) \<Rightarrow> sync_validated e context role content st)"

subsection \<open>User context retrieval\<close>

text \<open>
  \<^verbatim>\<open>if not isinstance(max_tokens, int) or max_tokens < 1: max_tokens = 500\<close>
  (a \<open>bool\<close> is an \<open>int\<close>).
\<close>

definition sanitize_max_tokens :: "pyval \<Rightarrow> pyval" where
  "sanitize_max_tokens max_tokens =
     (case max_tokens of
        PInt i \<Rightarrow> if i < 1 then PInt 500 else max_tokens
      | PBool b \<Rightarrow> if (if b then 1 else 0 :: int) < 1 then PInt 500 else max_tokens
      | _ \<Rightarrow> PInt 500)"

text \<open>
  The cache check: the cached value on a hit younger than the TTL. The clock is read only
  when the session id is in the cache.
\<close>

definition cache_lookup :: "env \<Rightarrow> string \<Rightarrow> state \<Rightarrow> pyval option \<times> state" where
  "cache_lookup e session_id st =
     (case map_of (context_cache st) session_id of
        None \<Rightarrow> (None, st)
      | Some (cached_time, cached_ctx) \<Rightarrow>
          (case time_time e st of
             (now, st') \<Rightarrow>
               if now - cached_time < CONTEXT_CACHE_TTL then (Some cached_ctx, st')
               else (None, st')))"

text \<open>The field probing on the object that \<^verbatim>\<open>session.context()\<close> returned.\<close>

definition context_result :: "session_context \<Rightarrow> pyval" where
  "context_result ctx =
     (let other =
        (case peer_representation ctx of
           Some p \<Rightarrow> if truthy p then p else PNone
         | None \<Rightarrow> PNone)
      in case summary ctx of
           Some s \<Rightarrow> if truthy s then s else other
         | None \<Rightarrow> other)"

text \<open>The last \<open>try\<close> block of \<open>get_user_context\<close>, with its handler.\<close>

definition fetch_user_context :: "env \<Rightarrow> client \<Rightarrow> string \<Rightarrow> state \<Rightarrow> pyval \<times> state" where
  "fetch_user_context e client session_id st =
     (case sdk e (GetSession client session_id) st of
        (Some exc, st1) \<Rightarrow> (PNone, st1)
      | (None, st1) \<Rightarrow>
          (case sdk e (GetContext (Session client session_id)) st1 of
             (Some exc, st2) \<Rightarrow> (PNone, st2)
           | (None, st2) \<Rightarrow>
               (let ctx = remote_context e (trace st1) (Session client session_id);
                    result = context_result ctx
                in case time_time e st2 of
                     (now, st3) \<Rightarrow>
                       (result,
                        st3\<lparr>context_cache :=
                              AList.update session_id (now, result) (context_cache st3)\<rparr>))))"

definition get_user_context ::
  "env \<Rightarrow> 'a AgentContext_scheme \<Rightarrow> pyval \<Rightarrow> state \<Rightarrow> pyval \<times> 'a AgentContext_scheme \<times> state" where
  "get_user_context e context max_tokens st =
     (let max_tokens = sanitize_max_tokens max_tokens
      in case ensure_initialized e context st of
           (False, context, st1) \<Rightarrow> (PNone, context, st1)
         | (True, context, st1) \<Rightarrow>
             (let session_id = get_session_id context
              in case cache_lookup e session_id st1 of
                   (Some cached_ctx, st2) \<Rightarrow> (cached_ctx, context, st2)
                 | (None, st2) \<Rightarrow>
                     (case get_client e context st2 of
                        (None, st3) \<Rightarrow> (PNone, context, st3)
                      | (Some client, st3) \<Rightarrow>
                          (case fetch_user_context e client session_id st3 of
                             (result, st4) \<Rightarrow> (result, context, st4)))))"

section \<open>The initialisation hook: \<open>HonchoInit.execute\<close>\<close>

text \<open>
  The \<open>try\<close> block of \<open>execute\<close>, which may raise. \<^verbatim>\<open>_load_helper()\<close> returns \<open>None\<close> when
  there is no module spec, and lets an exception of \<open>exec_module\<close> through.
\<close>

definition execute_try ::
  "env \<Rightarrow> 'a AgentContext_scheme \<Rightarrow> state \<Rightarrow> (exn + unit) \<times> 'a AgentContext_scheme \<times> state" where
  "execute_try e context st =
     (case helper_file e of
        LoadRaises exc \<Rightarrow> (Inl exc, context, st)
      | NoSpec \<Rightarrow> (Inr (), context, st)
      | Loaded \<Rightarrow>
          (case is_configured e context st of
             (False, st1) \<Rightarrow> (Inr (), context, st1)
           | (True, st1) \<Rightarrow>
               (case get_client e context st1 of
                  (None, st2) \<Rightarrow> (Inr (), context, st2)
                | (Some client, st2) \<Rightarrow>
                    (let session_id = get_session_id context;
                         h = honcho_dict context
                     in (Inr (),
                         context\<lparr>honcho := Some
                           (AList.update ''session_id'' (PStr session_id)
                             (AList.update ''enabled'' (PBool True) h))\<rparr>,
                         st2)))))"

text \<open>
  \<open>execute\<close>: both handlers (\<open>ImportError\<close>, then \<open>Exception\<close>) end the call normally. The
  hook executes the helper's file into a new module object at every call, so the caches
  it works on start empty and go with that module when the call returns; the caches of
  the state belong to the module the other hooks keep.
\<close>

definition HonchoInit_execute ::
  "env \<Rightarrow> 'a AgentContext_scheme \<Rightarrow> state \<Rightarrow> (exn + unit) \<times> 'a AgentContext_scheme \<times> state" where
  "HonchoInit_execute e context st =
     (case execute_try e context (st\<lparr>client_cache := [], context_cache := []\<rparr>) of
        (outcome, context', st') \<Rightarrow>
          (case outcome of Inl exc \<Rightarrow> Inr () | Inr u \<Rightarrow> Inr u,
           context',
           st'\<lparr>client_cache := client_cache st, context_cache := context_cache st\<rparr>))"

section \<open>Sample worlds\<close>

text \<open>
  A context with a stable id and no side channel yet, and the same context once marked
  enabled.
\<close>

definition sample_context :: AgentContext where
  "sample_context = \<lparr>ctx_id = Some (PStr ''42''), ctx_identity = 7, honcho = None\<rparr>"

definition enabled_context :: AgentContext where
  "enabled_context =
     \<lparr>ctx_id = Some (PStr ''42''), ctx_identity = 7,
      honcho = Some [(''enabled'', PBool True), (''session_id'', PStr ''chat-42'')]\<rparr>"

text \<open>
  A configured installation whose remote answers every call; the clock advances one
  second per event, from 1000.
\<close>

definition sample_env :: env where
  "sample_env =
     \<lparr>HONCHO_AVAILABLE = True,
      secret_store = (\<lambda>tr i. Inr [(''HONCHO_API_KEY'', '' sk-test '')]),
      sdk_raises = (\<lambda>tr call. None),
      remote_context =
        (\<lambda>tr s. \<lparr>summary = Some (PStr ''Likes Python''), peer_representation = None\<rparr>),
      clock = (\<lambda>tr. 1000 + of_nat (length tr)),
      helper_file = Loaded\<rparr>"

text \<open>The same installation with a remote that refuses every call but the client's construction.\<close>

definition unreachable_env :: env where
  "unreachable_env =
     sample_env\<lparr>sdk_raises :=
       (\<lambda>tr call. case call of NewClient k w \<Rightarrow> None | _ \<Rightarrow> Some (OtherError ''unreachable''))\<rparr>"


text \<open>The same installation after the API key has been taken out of the secret store.\<close>

definition keyless_env :: env where
  "keyless_env = sample_env\<lparr>secret_store := (\<lambda>tr i. Inr [])\<rparr>"

definition empty_state :: state where
  "empty_state = \<lparr>trace = [], client_cache = [], context_cache = []\<rparr>"



text \<open>A remote whose context object has an empty summary and no peer representation.\<close>

definition silent_env :: env where
  "silent_env =
     sample_env\<lparr>remote_context :=
       (\<lambda>tr s. \<lparr>summary = Some (PStr []), peer_representation = None\<rparr>)\<rparr>"

text \<open>A remote that refuses every call until the caller has slept \<open>k\<close> times.\<close>

definition sleeps :: "event list \<Rightarrow> nat" where
  "sleeps tr = length (filter (\<lambda>ev. case ev of Sleep d \<Rightarrow> True | _ \<Rightarrow> False) tr)"

definition recovering_env :: "nat \<Rightarrow> env" where
  "recovering_env k =
     sample_env\<lparr>sdk_raises :=
       (\<lambda>tr call. if sleeps tr < k then Some (OtherError ''unreachable'') else None)\<rparr>"

definition sample_client :: client where
  "sample_client = Client ''sk-test'' ''agent-zero''"

definition sample_peer :: peer where
  "sample_peer = Peer sample_client ''agent-zero''"

text \<open>A payload whose \<open>content\<close> is a dict with none of the three keys.\<close>

definition nested_payload :: pyval where
  "nested_payload = PDict [(PStr ''content'', PDict [(PStr ''note'', PInt 1)])]"

section \<open>Content extraction (C1)\<close>

lemma extract_loop_key_path_missing:
  "key_path_missing n raw = Some inner \<Longrightarrow> n \<le> 10 \<Longrightarrow>
     extract_loop raw (10 - n) = py_str inner"
proof (induction n arbitrary: raw)
  case 0
  then show ?case by simp
next
  case (Suc n)
  from Suc.prems obtain d where raw: "raw = PDict d"
    by (cases raw) auto
  have depth: "10 - Suc n < 10" "10 - Suc n + 1 = 10 - n"
    using Suc.prems(2) by auto
  show ?case
  proof (cases "extracted_of d = PNone")
    case True
    with Suc.prems raw have "inner = raw" by simp
    with True raw depth show ?thesis
      by (subst extract_loop.simps) simp
  next
    case False
    with Suc.prems raw have "key_path_missing n (extracted_of d) = Some inner" by simp
    with Suc.IH Suc.prems(2) have "extract_loop (extracted_of d) (10 - n) = py_str inner"
      by simp
    with False raw depth show ?thesis
      by (subst extract_loop.simps) (simp add: Let_def)
  qed
qed

text \<open>
  C1, as stated, fails. The payload \<^verbatim>\<open>{"content": {"note": 1}}\<close> has no key path to a
  value: \<open>content\<close> leads to a dict in which none of the three keys yields anything. The
  extraction returns the string form of that inner dict, \<^verbatim>\<open>{'note': 1}\<close>, which is not
  the string form of the payload, \<^verbatim>\<open>{'content': {'note': 1}}\<close>.
\<close>

theorem extract_content_nested_counterexample:
  "key_path_missing 10 nested_payload = Some (PDict [(PStr ''note'', PInt 1)]) \<and>
   extract_content nested_payload = ''{'note': 1}'' \<and>
   py_str nested_payload = ''{'content': {'note': 1}}'' \<and>
   extract_content nested_payload \<noteq> py_str nested_payload"
  by code_simp

text \<open>
  C1, amended. When the walk over the keys \<open>content\<close>, \<open>text\<close>, \<open>message\<close> comes, within 10
  levels of dict nesting, to a dict in which none of them yields a value, the extraction
  returns the string form of that dict. It is the string form of the original payload
  when the walk stops at the top level: for a dict payload in which the three lookups
  yield \<open>None\<close>, the result is \<open>str(payload)\<close>.
\<close>

theorem extract_content_stringifies_reached_dict:
  "(key_path_missing 10 payload = Some inner \<longrightarrow> extract_content payload = py_str inner) \<and>
   (extracted_of d = PNone \<longrightarrow> extract_content (PDict d) = py_str (PDict d))"
proof -
  have "extract_content payload = py_str inner" if "key_path_missing 10 payload = Some inner"
    using extract_loop_key_path_missing [OF that] by (simp add: extract_content_def)
  moreover have "extract_content (PDict d) = py_str (PDict d)" if "extracted_of d = PNone"
    unfolding extract_content_def using that by (subst extract_loop.simps) simp
  ultimately show ?thesis by blast
qed

text \<open>
  Witness for C1: the nested payload gives the string form of its inner dict, and the
  empty dict, the hook's default payload, gives \<^verbatim>\<open>{}\<close>.
\<close>

theorem extract_content_stringifies_reached_dict_witness:
  "key_path_missing 10 nested_payload = Some (PDict [(PStr ''note'', PInt 1)]) \<and>
   extract_content nested_payload = py_str (PDict [(PStr ''note'', PInt 1)]) \<and>
   extracted_of [] = PNone \<and>
   extract_content (PDict []) = ''{}''"
proof -
  have walk: "key_path_missing 10 nested_payload = Some (PDict [(PStr ''note'', PInt 1)])"
    by code_simp
  have top: "extracted_of [] = PNone"
    by code_simp
  have str: "py_str (PDict []) = ''{}''"
    by code_simp
  from extract_content_stringifies_reached_dict
         [of nested_payload "PDict [(PStr ''note'', PInt 1)]" "[]"] walk top str
  show ?thesis by simp
qed

section \<open>The retry decorator (C2)\<close>

text \<open>
  C2. The wrapper calls the function at most three times. After a first failure it sleeps
  0.5 s and calls again, after a second it sleeps 1.0 s and calls again, and after a
  third it raises that third exception with no sleep in between: the final state is the
  one the third call left. A call that returns ends the wrapper at once with that result
  and that state.
\<close>

theorem retry_three_attempts:
  fixes fn :: "state \<Rightarrow> (exn + 'r) \<times> state"
  shows
    "(fn st = (Inl e1, s1) \<and> fn (time_sleep (1 / 2) s1) = (Inl e2, s2) \<and>
      fn (time_sleep 1 s2) = (Inl e3, s3) \<longrightarrow> retry fn st = (Inl e3, s3)) \<and>
     (fn st = (Inr r, s1) \<longrightarrow> retry fn st = (Inr r, s1)) \<and>
     (fn st = (Inl e1, s1) \<and> fn (time_sleep (1 / 2) s1) = (Inr r, s2) \<longrightarrow>
        retry fn st = (Inr r, s2)) \<and>
     (fn st = (Inl e1, s1) \<and> fn (time_sleep (1 / 2) s1) = (Inl e2, s2) \<and>
      fn (time_sleep 1 s2) = (Inr r, s3) \<longrightarrow> retry fn st = (Inr r, s3))"
  by (simp add: retry_def RETRY_ATTEMPTS_def RETRY_BASE_DELAY_def)

text \<open>
  Witness for C2, on the body of \<open>_push_message\<close>. Against a remote that never recovers,
  the trace is three session calls with sleeps of 0.5 s and 1.0 s between them, and the
  third exception comes out. Against a remote that answers at once, or after one or two
  sleeps, the push goes through on that attempt and nothing follows it.
\<close>

theorem retry_three_attempts_witness:
  "retry (push_message_body (recovering_env 3) sample_client ''chat-42'' sample_peer ''Hello'')
     empty_state =
     (Inl (OtherError ''unreachable''),
      \<lparr>trace = [Sdk (GetSession sample_client ''chat-42''), Sleep (1 / 2),
                Sdk (GetSession sample_client ''chat-42''), Sleep 1,
                Sdk (GetSession sample_client ''chat-42'')],
       client_cache = [], context_cache = []\<rparr>) \<and>
   retry (push_message_body (recovering_env 0) sample_client ''chat-42'' sample_peer ''Hello'')
     empty_state =
     (Inr (),
      \<lparr>trace = [Sdk (GetSession sample_client ''chat-42''),
                Sdk (NewMessage sample_peer ''Hello''),
                Sdk (AddMessages (Session sample_client ''chat-42'')
                      [Message sample_peer ''Hello''])],
       client_cache = [], context_cache = []\<rparr>) \<and>
   retry (push_message_body (recovering_env 1) sample_client ''chat-42'' sample_peer ''Hello'')
     empty_state =
     (Inr (),
      \<lparr>trace = [Sdk (GetSession sample_client ''chat-42''), Sleep (1 / 2),
                Sdk (GetSession sample_client ''chat-42''),
                Sdk (NewMessage sample_peer ''Hello''),
                Sdk (AddMessages (Session sample_client ''chat-42'')
                      [Message sample_peer ''Hello''])],
       client_cache = [], context_cache = []\<rparr>) \<and>
   retry (push_message_body (recovering_env 2) sample_client ''chat-42'' sample_peer ''Hello'')
     empty_state =
     (Inr (),
      \<lparr>trace = [Sdk (GetSession sample_client ''chat-42''), Sleep (1 / 2),
                Sdk (GetSession sample_client ''chat-42''), Sleep 1,
                Sdk (GetSession sample_client ''chat-42''),
                Sdk (NewMessage sample_peer ''Hello''),
                Sdk (AddMessages (Session sample_client ''chat-42'')
                      [Message sample_peer ''Hello''])],
       client_cache = [], context_cache = []\<rparr>)"
proof -
  let ?fn = "\<lambda>k. push_message_body (recovering_env k) sample_client ''chat-42'' sample_peer ''Hello''"
  let ?get = "Sdk (GetSession sample_client ''chat-42'')"
  let ?push = "[?get, Sdk (NewMessage sample_peer ''Hello''),
                Sdk (AddMessages (Session sample_client ''chat-42'') [Message sample_peer ''Hello''])]"
  let ?st = "\<lambda>tr. \<lparr>trace = tr, client_cache = [], context_cache = []\<rparr>"
  let ?exc = "OtherError ''unreachable''"
  have sleep1: "time_sleep (1 / 2) (?st [?get]) = ?st [?get, Sleep (1 / 2)]"
    by (simp add: time_sleep_def)
  have sleep2: "time_sleep 1 (?st [?get, Sleep (1 / 2), ?get]) = ?st [?get, Sleep (1 / 2), ?get, Sleep 1]"
    by (simp add: time_sleep_def)
  have f3: "?fn 3 empty_state = (Inl ?exc, ?st [?get])"
    "?fn 3 (?st [?get, Sleep (1 / 2)]) = (Inl ?exc, ?st [?get, Sleep (1 / 2), ?get])"
    "?fn 3 (?st [?get, Sleep (1 / 2), ?get, Sleep 1]) =
       (Inl ?exc, ?st [?get, Sleep (1 / 2), ?get, Sleep 1, ?get])"
    by code_simp+
  have f0: "?fn 0 empty_state = (Inr (), ?st ?push)"
    by code_simp
  have f1: "?fn 1 empty_state = (Inl ?exc, ?st [?get])"
    "?fn 1 (?st [?get, Sleep (1 / 2)]) = (Inr (), ?st ([?get, Sleep (1 / 2)] @ ?push))"
    by code_simp+
  have f2: "?fn 2 empty_state = (Inl ?exc, ?st [?get])"
    "?fn 2 (?st [?get, Sleep (1 / 2)]) = (Inl ?exc, ?st [?get, Sleep (1 / 2), ?get])"
    "?fn 2 (?st [?get, Sleep (1 / 2), ?get, Sleep 1]) =
       (Inr (), ?st ([?get, Sleep (1 / 2), ?get, Sleep 1] @ ?push))"
    by code_simp+
  have r3: "retry (?fn 3) empty_state = (Inl ?exc, ?st [?get, Sleep (1 / 2), ?get, Sleep 1, ?get])"
    using retry_three_attempts [of "?fn 3" empty_state ?exc "?st [?get]" ?exc
        "?st [?get, Sleep (1 / 2), ?get]" ?exc "?st [?get, Sleep (1 / 2), ?get, Sleep 1, ?get]"]
      f3 sleep1 sleep2 by simp
  have r0: "retry (?fn 0) empty_state = (Inr (), ?st ?push)"
    using retry_three_attempts [of "?fn 0" empty_state _ "?st ?push" _ _ _ _ "()"] f0 by simp
  have r1: "retry (?fn 1) empty_state = (Inr (), ?st ([?get, Sleep (1 / 2)] @ ?push))"
    using retry_three_attempts [of "?fn 1" empty_state ?exc "?st [?get]" _
        "?st ([?get, Sleep (1 / 2)] @ ?push)" _ _ "()"] f1 sleep1 by simp
  have r2: "retry (?fn 2) empty_state =
      (Inr (), ?st ([?get, Sleep (1 / 2), ?get, Sleep 1] @ ?push))"
    using retry_three_attempts [of "?fn 2" empty_state ?exc "?st [?get]" ?exc
        "?st [?get, Sleep (1 / 2), ?get]" _
        "?st ([?get, Sleep (1 / 2), ?get, Sleep 1] @ ?push)" "()"] f2 sleep1 sleep2 by simp
  from r3 r0 r1 r2 show ?thesis by simp
qed

section \<open>The context cache (C3, C4, C9)\<close>

text \<open>Only the fetch writes the context cache.\<close>

lemma get_api_key_cache:
  "get_api_key e c st = (k, st') \<Longrightarrow> context_cache st' = context_cache st"
  by (auto simp: get_api_key_def load_secrets_def Let_def split: prod.splits sum.splits)

lemma get_config_value_cache:
  "get_config_value e key d c st = (v, st') \<Longrightarrow> context_cache st' = context_cache st"
  by (auto simp: get_config_value_def load_secrets_def Let_def
      split: prod.splits sum.splits if_splits)

lemma is_configured_cache:
  "is_configured e c st = (b, st') \<Longrightarrow> context_cache st' = context_cache st"
  by (auto simp: is_configured_def split: if_splits prod.splits option.splits
      dest: get_api_key_cache)

lemma get_client_cache:
  "get_client e c st = (cl, st') \<Longrightarrow> context_cache st' = context_cache st"
  by (auto simp: get_client_def sdk_def split: if_splits prod.splits option.splits
      dest!: get_api_key_cache get_config_value_cache)

lemma init_session_cache:
  "init_session e cl sid c st = (r, st') \<Longrightarrow> context_cache st' = context_cache st"
  by (auto simp: init_session_def sdk_def get_user_id_def split: prod.splits option.splits
      dest!: get_config_value_cache)

lemma ensure_initialized_cache:
  "ensure_initialized e c st = (b, c', st') \<Longrightarrow> context_cache st' = context_cache st"
  by (auto simp: ensure_initialized_def Let_def
      split: if_splits prod.splits option.splits sum.splits bool.splits
      dest!: is_configured_cache get_client_cache init_session_cache)

lemma cache_lookup_cache:
  "cache_lookup e sid st = (r, st') \<Longrightarrow> context_cache st' = context_cache st"
  by (auto simp: cache_lookup_def time_time_def split: option.splits prod.splits if_splits)




text \<open>
  C4. Let the call reach the remote query: lazy initialisation succeeds, the cache check
  gives no usable entry, a client is obtained. When the session call or the context call
  raises, \<open>get_user_context\<close> returns \<open>None\<close> and the context cache is the one the call
  started with. When neither raises, it returns the value probed from the context object
  (which may be \<open>None\<close>) and the cache is the starting one updated, under the session id,
  with the time read after the query and that value.
\<close>

theorem get_user_context_failure_not_cached:
  assumes "ensure_initialized e context st = (True, context', st')"
    and "cache_lookup e session_id st' = (None, st'')"
    and "get_client e context' st'' = (Some client, st''')"
    and "session_id = get_session_id context'"
  shows
    "((sdk_raises e (trace st''') (GetSession client session_id) \<noteq> None \<or>
       sdk_raises e (trace st''' @ [Sdk (GetSession client session_id)])
         (GetContext (Session client session_id)) \<noteq> None) \<longrightarrow>
        fst (get_user_context e context max_tokens st) = PNone \<and>
        context_cache (snd (snd (get_user_context e context max_tokens st))) =
          context_cache st) \<and>
     (sdk_raises e (trace st''') (GetSession client session_id) = None \<and>
      sdk_raises e (trace st''' @ [Sdk (GetSession client session_id)])
         (GetContext (Session client session_id)) = None \<longrightarrow>
        fst (get_user_context e context max_tokens st) =
          context_result (remote_context e (trace st''' @ [Sdk (GetSession client session_id)])
            (Session client session_id)) \<and>
        context_cache (snd (snd (get_user_context e context max_tokens st))) =
          AList.update session_id
            (clock e (trace st''' @ [Sdk (GetSession client session_id),
                                    Sdk (GetContext (Session client session_id))]),
             context_result
               (remote_context e (trace st''' @ [Sdk (GetSession client session_id)])
                 (Session client session_id)))
            (context_cache st))"
proof -
  have "context_cache st''' = context_cache st"
    using assms(1-3) ensure_initialized_cache cache_lookup_cache get_client_cache by metis
  with assms show ?thesis
    by (auto simp: get_user_context_def Let_def fetch_user_context_def sdk_def time_time_def
        split: prod.splits option.splits)
qed

text \<open>
  Witness for C4. Against the remote that refuses the session call the result is \<open>None\<close>
  and the cache stays empty. Against the remote whose context object has nothing to
  offer the result is \<open>None\<close> as well, and the cache now holds that \<open>None\<close> with its time.
\<close>

theorem get_user_context_failure_not_cached_witness:
  "fst (get_user_context unreachable_env enabled_context (PInt 500) empty_state) = PNone \<and>
   context_cache (snd (snd (get_user_context unreachable_env enabled_context (PInt 500)
     empty_state))) = [] \<and>
   fst (get_user_context silent_env enabled_context (PInt 500) empty_state) = PNone \<and>
   context_cache (snd (snd (get_user_context silent_env enabled_context (PInt 500)
     empty_state))) = [(''chat-42'', 1005, PNone)]"
proof -
  let ?st = "\<lparr>trace = [LoadSecrets 7, LoadSecrets 7, Sdk (NewClient ''sk-test'' ''agent-zero'')],
              client_cache = [(''agent-zero'', sample_client)], context_cache = []\<rparr>"
  let ?get = "GetSession sample_client ''chat-42''"
  let ?ctx = "GetContext (Session sample_client ''chat-42'')"
  have sid: "''chat-42'' = get_session_id enabled_context"
    by code_simp
  have none: "context_cache empty_state = []"
    by code_simp
  have init1: "ensure_initialized unreachable_env enabled_context empty_state =
      (True, enabled_context, empty_state)"
    by code_simp
  have miss1: "cache_lookup unreachable_env ''chat-42'' empty_state = (None, empty_state)"
    by code_simp
  have client1: "get_client unreachable_env enabled_context empty_state =
      (Some sample_client, ?st)"
    by code_simp
  have raises: "sdk_raises unreachable_env (trace ?st) ?get \<noteq> None"
    by code_simp
  have failed:
    "fst (get_user_context unreachable_env enabled_context (PInt 500) empty_state) = PNone \<and>
     context_cache (snd (snd (get_user_context unreachable_env enabled_context (PInt 500)
       empty_state))) = []"
    using get_user_context_failure_not_cached
      [OF init1 miss1 client1 sid, where max_tokens = "PInt 500"] raises none
    by simp
  have init2: "ensure_initialized silent_env enabled_context empty_state =
      (True, enabled_context, empty_state)"
    by code_simp
  have miss2: "cache_lookup silent_env ''chat-42'' empty_state = (None, empty_state)"
    by code_simp
  have client2: "get_client silent_env enabled_context empty_state = (Some sample_client, ?st)"
    by code_simp
  have answers: "sdk_raises silent_env (trace ?st) ?get = None"
    "sdk_raises silent_env (trace ?st @ [Sdk ?get]) ?ctx = None"
    by code_simp+
  have probed: "context_result (remote_context silent_env (trace ?st @ [Sdk ?get])
      (Session sample_client ''chat-42'')) = PNone"
    by code_simp
  have now: "clock silent_env (trace ?st @ [Sdk ?get, Sdk ?ctx]) = 1005"
    by code_simp
  have stored:
    "fst (get_user_context silent_env enabled_context (PInt 500) empty_state) = PNone \<and>
     context_cache (snd (snd (get_user_context silent_env enabled_context (PInt 500)
       empty_state))) = [(''chat-42'', 1005, PNone)]"
    using get_user_context_failure_not_cached
      [OF init2 miss2 client2 sid, where max_tokens = "PInt 500"] answers probed now none
    by simp
  from failed stored show ?thesis by simp
qed

text \<open>
  C9. The result and every effect of \<open>get_user_context\<close> are the same for any two values
  of \<open>max_tokens\<close>: the argument is sanitised and then never read.
\<close>

theorem get_user_context_max_tokens_unused:
  "get_user_context e context max_tokens st = get_user_context e context max_tokens' st"
  by (simp add: get_user_context_def Let_def)

text \<open>
  Witness for C9: a cap of one token and a cap that is not even a number give the whole
  remote summary, and the same final state.
\<close>

theorem get_user_context_max_tokens_unused_witness:
  "get_user_context sample_env enabled_context (PInt 1) empty_state =
     get_user_context sample_env enabled_context (PStr ''many'') empty_state \<and>
   fst (get_user_context sample_env enabled_context (PInt 1) empty_state) =
     PStr ''Likes Python''"
proof -
  have "fst (get_user_context sample_env enabled_context (PInt 1) empty_state) =
      PStr ''Likes Python''"
    by code_simp
  with get_user_context_max_tokens_unused
         [of sample_env enabled_context "PInt 1" empty_state "PStr ''many''"]
  show ?thesis by simp
qed

section \<open>Role and content validation (C5, C10)\<close>

text \<open>
  C5. A string role whose stripped, lowercased form is neither \<open>user\<close> nor \<open>assistant\<close>
  makes \<open>sync_message\<close> return \<open>False\<close> with the context and the state as they were: no
  secret is loaded, no SDK call is made. A string role that is \<open>user\<close> or \<open>assistant\<close> up
  to case and surrounding whitespace passes validation as its normal form, and with a
  content that passes validation too \<open>sync_message\<close> goes on, with that normal form and
  the stripped content, to initialisation, client retrieval and the push.
\<close>

theorem sync_message_rejects_role:
  "(py_lower (py_strip s) \<notin> {''user'', ''assistant''} \<longrightarrow>
      sync_message e context (PStr s) content st = (Inr False, context, st)) \<and>
   (py_lower (py_strip s) \<in> {''user'', ''assistant''} \<longrightarrow>
      validate_role (PStr s) = Inr (py_lower (py_strip s))) \<and>
   (py_lower (py_strip s) \<in> {''user'', ''assistant''} \<and>
    validate_content content = Inr body \<longrightarrow>
      sync_message e context (PStr s) content st =
        sync_validated e context (py_lower (py_strip s)) body st)"
  by (auto simp: sync_message_def validate_both_def validate_role_def Let_def)

text \<open>
  Witness for C5: the role \<open>Admin\<close> is refused before anything is touched. The role
  \<open>User\<close> between a no-break space and a next-line character is normalised to \<open>user\<close>,
  and the message is pushed as the user's peer.
\<close>

theorem sync_message_rejects_role_witness:
  "py_lower (py_strip '' Admin '') = ''admin'' \<and>
   sync_message sample_env sample_context (PStr '' Admin '') (PStr ''Hello'') empty_state =
     (Inr False, sample_context, empty_state) \<and>
   py_lower (py_strip (CHR 0xA0 # ''User'' @ [CHR 0x85])) = ''user'' \<and>
   validate_role (PStr (CHR 0xA0 # ''User'' @ [CHR 0x85])) = Inr ''user'' \<and>
   fst (sync_message sample_env sample_context (PStr (CHR 0xA0 # ''User'' @ [CHR 0x85]))
          (PStr '' Hello '') empty_state) = Inr True \<and>
   last (trace (snd (snd (sync_message sample_env sample_context
          (PStr (CHR 0xA0 # ''User'' @ [CHR 0x85])) (PStr '' Hello '') empty_state)))) =
     Sdk (AddMessages (Session sample_client ''chat-42'')
           [Message (Peer sample_client ''user'') ''Hello''])"
proof -
  let ?role = "CHR 0xA0 # ''User'' @ [CHR 0x85]"
  let ?run = "sync_validated sample_env sample_context ''user'' ''Hello'' empty_state"
  have admin: "py_lower (py_strip '' Admin '') = ''admin''"
    by code_simp
  have user: "py_lower (py_strip ?role) = ''user''"
    by code_simp
  have body: "validate_content (PStr '' Hello '') = Inr ''Hello''"
    by code_simp
  have run: "fst ?run = Inr True"
    "last (trace (snd (snd ?run))) =
       Sdk (AddMessages (Session sample_client ''chat-42'')
             [Message (Peer sample_client ''user'') ''Hello''])"
    by code_simp+
  from sync_message_rejects_role
         [of "'' Admin ''" sample_env sample_context "PStr ''Hello''" empty_state]
       sync_message_rejects_role
         [of ?role sample_env sample_context "PStr '' Hello ''" empty_state "''Hello''"]
       admin user body run
  show ?thesis by simp
qed

text \<open>
  C10, as stated, fails in its first half: a \<open>bytes\<close> role is not a string, yet it has
  \<open>strip\<close> and \<open>lower\<close>, so validation raises \<open>ValueError\<close>, which the handler catches, and
  \<open>sync_message\<close> returns \<open>False\<close>.
\<close>

theorem sync_message_bytes_role_counterexample:
  "sync_message sample_env sample_context (PBytes ''user'') (PStr ''Hello'') empty_state =
     (Inr False, sample_context, empty_state)"
  by code_simp

text \<open>
  C10, amended. For a role with no \<open>strip\<close> method (\<open>None\<close>, a bool, an int, a list, a
  dict) \<open>sync_message\<close> raises \<open>AttributeError\<close>, with the context and the state untouched.
  For a role that passes validation and a content that is not a string, it returns
  \<open>False\<close> without raising.
\<close>

theorem sync_message_non_string_arguments:
  "((\<forall>s. role \<noteq> PStr s) \<and> (\<forall>b. role \<noteq> PBytes b) \<longrightarrow>
      sync_message e context role content st = (Inl AttributeError, context, st)) \<and>
   (validate_role role = Inr r \<and> (\<forall>s. content \<noteq> PStr s) \<longrightarrow>
      sync_message e context role content st = (Inr False, context, st))"
  by (cases role; cases content)
     (simp_all add: sync_message_def validate_both_def validate_role_def validate_content_def
        Let_def)

text \<open>
  Witness for C10: the roles \<open>None\<close> and \<open>3\<close> raise \<open>AttributeError\<close>; the role \<open>user\<close> with
  the content \<open>None\<close> gives \<open>False\<close>.
\<close>

theorem sync_message_non_string_arguments_witness:
  "sync_message sample_env sample_context PNone (PStr ''Hello'') empty_state =
     (Inl AttributeError, sample_context, empty_state) \<and>
   sync_message sample_env sample_context (PInt 3) (PStr ''Hello'') empty_state =
     (Inl AttributeError, sample_context, empty_state) \<and>
   validate_role (PStr ''user'') = Inr ''user'' \<and>
   sync_message sample_env sample_context (PStr ''user'') PNone empty_state =
     (Inr False, sample_context, empty_state)"
proof -
  have valid: "validate_role (PStr ''user'') = Inr ''user''"
    by code_simp
  from sync_message_non_string_arguments
         [of PNone sample_env sample_context "PStr ''Hello''" empty_state]
       sync_message_non_string_arguments
         [of "PInt 3" sample_env sample_context "PStr ''Hello''" empty_state]
       sync_message_non_string_arguments
         [of "PStr ''user''" sample_env sample_context PNone empty_state "''user''"]
       valid
  show ?thesis by simp
qed

section \<open>Configuration and initialisation (C6, C7, C8)\<close>

lemma py_strip_empty_iff: "py_strip s = [] \<longleftrightarrow> (\<forall>c\<in>set s. py_isspace c)"
proof
  assume "py_strip s = []"
  then have spaces: "\<forall>c\<in>set (dropWhile py_isspace s). py_isspace c"
    by (simp add: py_strip_def)
  have "dropWhile py_isspace s = []"
  proof (rule ccontr)
    assume rest: "dropWhile py_isspace s \<noteq> []"
    then have "\<not> py_isspace (hd (dropWhile py_isspace s))"
      by (rule hd_dropWhile)
    with spaces rest show False
      by (meson hd_in_set)
  qed
  then show "\<forall>c\<in>set s. py_isspace c"
    by simp
next
  assume "\<forall>c\<in>set s. py_isspace c"
  then show "py_strip s = []"
    by (auto simp: py_strip_def dest: set_dropWhileD)
qed

text \<open>
  C6. \<open>is_configured\<close> is true exactly when the SDK is available and the secret store
  gives, without raising, a dict whose \<open>HONCHO_API_KEY\<close> has a character that is not
  whitespace. It is false when the SDK is absent, when the store raises, and when the key
  is missing, empty or all whitespace; no other entry of the store takes part.
\<close>

theorem is_configured_iff:
  "fst (is_configured e context st) \<longleftrightarrow>
     HONCHO_AVAILABLE e \<and>
     (case secret_store e (trace st) (ctx_identity context) of
        Inl exc \<Rightarrow> False
      | Inr secrets \<Rightarrow>
          (case map_of secrets ''HONCHO_API_KEY'' of
             None \<Rightarrow> False
           | Some key \<Rightarrow> \<exists>c\<in>set key. \<not> py_isspace c))"
  using py_strip_empty_iff
  by (auto simp: is_configured_def get_api_key_def load_secrets_def secrets_get_def Let_def
      split: sum.splits option.splits)

text \<open>
  Witness for C6: configured with a key; not configured without the SDK, without the
  key, with a key of blanks, with a key of a no-break space and a next-line character, or
  with a store that raises, whatever else is set.
\<close>

theorem is_configured_iff_witness:
  "fst (is_configured sample_env sample_context empty_state) \<and>
   \<not> fst (is_configured (sample_env\<lparr>HONCHO_AVAILABLE := False\<rparr>) sample_context empty_state) \<and>
   \<not> fst (is_configured keyless_env sample_context empty_state) \<and>
   \<not> fst (is_configured
       (sample_env\<lparr>secret_store :=
          (\<lambda>tr i. Inr [(''HONCHO_API_KEY'', ''   ''), (''HONCHO_WORKSPACE_ID'', ''w'')])\<rparr>)
       sample_context empty_state) \<and>
   \<not> fst (is_configured
       (sample_env\<lparr>secret_store :=
          (\<lambda>tr i. Inr [(''HONCHO_API_KEY'', [CHR 0xA0, CHR 0x85]),
                        (''HONCHO_USER_ID'', ''u'')])\<rparr>)
       sample_context empty_state) \<and>
   \<not> fst (is_configured (sample_env\<lparr>secret_store := (\<lambda>tr i. Inl ImportError)\<rparr>)
       sample_context empty_state)"
proof -
  have key: "\<exists>c\<in>set '' sk-test ''. \<not> py_isspace c"
    by code_simp
  have blank: "\<not> (\<exists>c\<in>set ''   ''. \<not> py_isspace c)"
    by code_simp
  have wide: "\<not> (\<exists>c\<in>set [CHR 0xA0, CHR 0x85]. \<not> py_isspace c)"
    by code_simp
  from is_configured_iff [of sample_env sample_context empty_state]
       is_configured_iff [of "sample_env\<lparr>HONCHO_AVAILABLE := False\<rparr>" sample_context empty_state]
       is_configured_iff [of keyless_env sample_context empty_state]
       is_configured_iff
         [of "sample_env\<lparr>secret_store :=
                (\<lambda>tr i. Inr [(''HONCHO_API_KEY'', ''   ''), (''HONCHO_WORKSPACE_ID'', ''w'')])\<rparr>"
             sample_context empty_state]
       is_configured_iff
         [of "sample_env\<lparr>secret_store :=
                (\<lambda>tr i. Inr [(''HONCHO_API_KEY'', [CHR 0xA0, CHR 0x85]),
                              (''HONCHO_USER_ID'', ''u'')])\<rparr>"
             sample_context empty_state]
       is_configured_iff [of "sample_env\<lparr>secret_store := (\<lambda>tr i. Inl ImportError)\<rparr>"
         sample_context empty_state]
       key blank wide
  show ?thesis
    by (simp add: sample_env_def keyless_env_def)
qed

lemma ensure_initialized_enabled:
  "ensure_initialized e context st = (True, context', st') \<Longrightarrow> honcho_enabled context'"
  by (auto simp: ensure_initialized_def Let_def honcho_enabled_def AList.update_conv
      split: if_splits prod.splits option.splits sum.splits bool.splits)

text \<open>
  C7. On a context whose side channel has a truthy \<open>enabled\<close>, \<open>ensure_initialized\<close>
  returns \<open>True\<close> with the context and the state unchanged: nothing is loaded, no SDK call
  is made. A call that returned \<open>True\<close> leaves such a context, so calling again on what
  it left returns \<open>True\<close> and changes nothing.
\<close>

theorem ensure_initialized_idempotent:
  "(honcho_enabled context \<longrightarrow> ensure_initialized e context st = (True, context, st)) \<and>
   (ensure_initialized e context st = (True, context', st') \<longrightarrow>
      ensure_initialized e context' st' = (True, context', st'))"
  using ensure_initialized_enabled [of e "context" st context' st']
  by (simp add: ensure_initialized_def)

text \<open>
  Witness for C7: the first call on the sample context sets up the session and marks the
  context; the second call on the result is the identity.
\<close>

theorem ensure_initialized_idempotent_witness:
  "honcho_enabled enabled_context \<and>
   ensure_initialized sample_env enabled_context empty_state =
     (True, enabled_context, empty_state) \<and>
   fst (ensure_initialized sample_env sample_context empty_state) \<and>
   fst (snd (ensure_initialized sample_env sample_context empty_state)) = enabled_context \<and>
   ensure_initialized sample_env enabled_context
     (snd (snd (ensure_initialized sample_env sample_context empty_state))) =
     (True, enabled_context,
      snd (snd (ensure_initialized sample_env sample_context empty_state)))"
proof -
  let ?first = "ensure_initialized sample_env sample_context empty_state"
  have enabled: "honcho_enabled enabled_context"
    by code_simp
  have first: "fst ?first" "fst (snd ?first) = enabled_context"
    by code_simp+
  then have split: "?first = (True, enabled_context, snd (snd ?first))"
    by (cases ?first) simp
  from ensure_initialized_idempotent
         [of enabled_context sample_env empty_state enabled_context empty_state]
       ensure_initialized_idempotent
         [of sample_context sample_env empty_state enabled_context "snd (snd ?first)"]
       enabled first split
  show ?thesis by simp
qed

lemma is_configured_caches:
  "fst (is_configured e context (st\<lparr>client_cache := a, context_cache := b\<rparr>)) =
     fst (is_configured e context st)"
  by (simp add: is_configured_def get_api_key_def load_secrets_def Let_def split: sum.splits)

text \<open>
  C8. When \<open>is_configured\<close> is false, \<open>HonchoInit.execute\<close> ends normally and the context
  it leaves is the context it was given, the side channel and every other field alike.
\<close>

theorem HonchoInit_execute_unconfigured:
  "\<not> fst (is_configured e context st) \<Longrightarrow>
     fst (HonchoInit_execute e context st) = Inr () \<and>
     fst (snd (HonchoInit_execute e context st)) = context"
  using is_configured_caches [of e "context" "[]" "[]" st]
  by (cases "is_configured e context (st\<lparr>client_cache := [], context_cache := []\<rparr>)")
     (auto simp: HonchoInit_execute_def execute_try_def split: load_outcome.splits)

text \<open>
  Witness for C8: with the key out of the store, the hook returns and the sample context
  still has no side channel.
\<close>

theorem HonchoInit_execute_unconfigured_witness:
  "\<not> fst (is_configured keyless_env sample_context empty_state) \<and>
   fst (HonchoInit_execute keyless_env sample_context empty_state) = Inr () \<and>
   fst (snd (HonchoInit_execute keyless_env sample_context empty_state)) = sample_context \<and>
   honcho sample_context = None"
proof -
  have unconfigured: "\<not> fst (is_configured keyless_env sample_context empty_state)"
    by code_simp
  have bare: "honcho sample_context = None"
    by code_simp
  from HonchoInit_execute_unconfigured [OF unconfigured] unconfigured bare
  show ?thesis by simp
qed

end
